theory Spec2Isabelle
  imports Main
begin

section \<open>Run-time values and objects\<close>

text \<open>
  The adapter \<^verbatim>\<open>src/team/protocol-adapter.ts\<close> moves values between typed fields and
  free-form metadata objects of type \<^verbatim>\<open>Record<string, unknown>\<close>. TypeScript types are
  erased when the code runs and an \<^verbatim>\<open>as\<close> cast checks nothing, so a value read out of a
  metadata object is whatever was stored there. \<open>jsval\<close> is the type of such values.
  Numbers are only carried from one record to another, never computed with, and are
  represented by integers.

  An object is the list of its own enumerable properties, which is what
  \<^verbatim>\<open>Object.entries\<close> returns. The keys of an object are pairwise distinct (\<open>wf_obj\<close>).
  The list is in insertion order; JavaScript enumerates integer-like keys before the
  others, but no converter depends on the order of enumeration, and the properties proved
  below are about lookups (\<open>map_of\<close>, \<open>obj_get\<close>).
\<close>

datatype jsval =
    JUndefined
  | JNull
  | JBool bool
  | JNum int
  | JStr string
  | JArr "jsval list"
  | JObj "(string \<times> jsval) list"

type_synonym obj = "(string \<times> jsval) list"

definition wf_obj :: "obj \<Rightarrow> bool" where
  "wf_obj m = distinct (map fst m)"

text \<open>Property read \<^verbatim>\<open>m[k]\<close>: a missing property reads as \<^verbatim>\<open>undefined\<close>.\<close>

definition obj_get :: "obj \<Rightarrow> string \<Rightarrow> jsval" where
  "obj_get m k = (case map_of m k of None \<Rightarrow> JUndefined | Some v \<Rightarrow> v)"

text \<open>
  Property definition, as done by each \<^verbatim>\<open>k: v\<close> of an object literal and by
  \<^verbatim>\<open>Object.fromEntries\<close>: an existing property keeps its place and takes the new value,
  a new property is added after the others.
\<close>

fun obj_set :: "string \<Rightarrow> jsval \<Rightarrow> obj \<Rightarrow> obj" where
  "obj_set k v [] = [(k, v)]"
| "obj_set k v ((k', v') # m) = (if k' = k then (k, v) # m else (k', v') # obj_set k v m)"

definition Object_entries :: "obj \<Rightarrow> (string \<times> jsval) list" where
  "Object_entries m = m"

definition Object_fromEntries :: "(string \<times> jsval) list \<Rightarrow> obj" where
  "Object_fromEntries es = foldl (\<lambda>m (k, v). obj_set k v m) [] es"

text \<open>The operator \<^verbatim>\<open>a ?? b\<close>: \<open>b\<close> when \<open>a\<close> is \<^verbatim>\<open>undefined\<close> or \<^verbatim>\<open>null\<close>.\<close>

fun nullish :: "jsval \<Rightarrow> bool" where
  "nullish JUndefined = True"
| "nullish JNull = True"
| "nullish _ = False"

definition coalesce :: "jsval \<Rightarrow> jsval \<Rightarrow> jsval" where
  "coalesce a b = (if nullish a then b else a)"

text \<open>\<^verbatim>\<open>m ?? {}\<close> on an optional object.\<close>

fun obj_or_empty :: "obj option \<Rightarrow> obj" where
  "obj_or_empty None = []"
| "obj_or_empty (Some m) = m"

text \<open>\<^verbatim>\<open>Array.isArray(v) ? v : []\<close>\<close>

fun array_or_empty :: "jsval \<Rightarrow> jsval list" where
  "array_or_empty (JArr xs) = xs"
| "array_or_empty _ = []"

section \<open>Task records\<close>

text \<open>
  Modelled from the spec: the declarations of \<^verbatim>\<open>TaskFile\<close> (\<^verbatim>\<open>./types.js\<close>) and of
  \<^verbatim>\<open>ProtocolTask\<close> (package \<^verbatim>\<open>cli-agent-mail\<close>) are not among the sources. The fields are
  those the adapter reads and writes, with the shapes of section 3 of the specification:
  identifier, subject, description, status, optional owner, the two lists of task
  identifiers, optional metadata, optional claim information and optional active form.
  An optional field of known type is an \<open>option\<close> (\<open>None\<close> is \<^verbatim>\<open>undefined\<close>). The fields
  that \<open>fromProtocolTask\<close> fills straight from the metadata object hold a \<open>jsval\<close>;
  \<open>TaskFile_typed\<close> says that they have the declared types.

  Field names carry the prefix of their record (\<open>tf_\<close>, \<open>pt_\<close>), since several records
  of the adapter have fields of the same name.
\<close>

record TaskFile =
  tf_id :: string
  tf_subject :: string
  tf_description :: string
  tf_activeForm :: jsval
  tf_status :: string
  tf_owner :: "string option"
  tf_blocks :: "jsval list"
  tf_blockedBy :: "string list"
  tf_metadata :: "obj option"
  tf_claimedBy :: jsval
  tf_claimedAt :: jsval
  tf_claimPid :: jsval

record ProtocolTask =
  pt_schema_version :: int
  pt_id :: string
  pt_subject :: string
  pt_description :: string
  pt_status :: string
  pt_owner :: "string option"
  pt_depends_on :: "string list option"
  pt_version :: int
  pt_metadata :: "obj option"
  pt_created_at :: string

fun is_opt_string :: "jsval \<Rightarrow> bool" where
  "is_opt_string JUndefined = True"
| "is_opt_string (JStr _) = True"
| "is_opt_string _ = False"

fun is_opt_number :: "jsval \<Rightarrow> bool" where
  "is_opt_number JUndefined = True"
| "is_opt_number (JNum _) = True"
| "is_opt_number _ = False"

fun is_string :: "jsval \<Rightarrow> bool" where
  "is_string (JStr _) = True"
| "is_string _ = False"

definition TaskFile_typed :: "TaskFile \<Rightarrow> bool" where
  "TaskFile_typed t \<longleftrightarrow>
     is_opt_string (tf_activeForm t) \<and> list_all is_string (tf_blocks t) \<and>
     is_opt_string (tf_claimedBy t) \<and> is_opt_number (tf_claimedAt t) \<and>
     is_opt_number (tf_claimPid t) \<and> wf_obj (obj_or_empty (tf_metadata t))"

definition task_reserved_keys :: "string list" where
  "task_reserved_keys = [''blocks'', ''activeForm'', ''claimedBy'', ''claimedAt'', ''claimPid'']"

text \<open>\<^verbatim>\<open>task.owner || undefined\<close>: the empty string is falsy.\<close>

fun owner_or_undefined :: "string option \<Rightarrow> string option" where
  "owner_or_undefined None = None"
| "owner_or_undefined (Some s) = (if s = [] then None else Some s)"

text \<open>
  \<open>toProtocolTask\<close> reads the clock (\<^verbatim>\<open>new Date().toISOString()\<close>); the value read is the
  parameter \<open>now\<close>.
\<close>

definition toProtocolTask :: "string \<Rightarrow> TaskFile \<Rightarrow> ProtocolTask" where
  "toProtocolTask now task =
     \<lparr> pt_schema_version = 1,
       pt_id = tf_id task,
       pt_subject = tf_subject task,
       pt_description = tf_description task,
       pt_status = tf_status task,
       pt_owner = owner_or_undefined (tf_owner task),
       pt_depends_on = (if length (tf_blockedBy task) > 0 then Some (tf_blockedBy task) else None),
       pt_version = 1,
       pt_metadata = Some
         (obj_set ''claimPid'' (tf_claimPid task)
         (obj_set ''claimedAt'' (tf_claimedAt task)
         (obj_set ''claimedBy'' (tf_claimedBy task)
         (obj_set ''activeForm'' (tf_activeForm task)
         (obj_set ''blocks'' (JArr (tf_blocks task))
           (obj_or_empty (tf_metadata task))))))),
       pt_created_at = now \<rparr>"

definition fromProtocolTask :: "ProtocolTask \<Rightarrow> TaskFile" where
  "fromProtocolTask task =
     (let meta = obj_or_empty (pt_metadata task) in
      \<lparr> tf_id = pt_id task,
        tf_subject = pt_subject task,
        tf_description = pt_description task,
        tf_activeForm = coalesce (obj_get meta ''activeForm'') JUndefined,
        tf_status = pt_status task,
        tf_owner = Some (case pt_owner task of None \<Rightarrow> [] | Some s \<Rightarrow> s),
        tf_blocks = array_or_empty (obj_get meta ''blocks''),
        tf_blockedBy = (case pt_depends_on task of None \<Rightarrow> [] | Some d \<Rightarrow> d),
        tf_metadata = Some (Object_fromEntries
          (filter (\<lambda>(k, v). \<not> List.member task_reserved_keys k) (Object_entries meta))),
        tf_claimedBy = obj_get meta ''claimedBy'',
        tf_claimedAt = obj_get meta ''claimedAt'',
        tf_claimPid = obj_get meta ''claimPid'' \<rparr>)"

section \<open>Messages\<close>

text \<open>
  Modelled from the spec: the declarations of \<^verbatim>\<open>OutboxMessage\<close> and \<^verbatim>\<open>InboxMessage\<close>
  (\<^verbatim>\<open>./types.js\<close>) and of \<^verbatim>\<open>ProtocolMessage\<close> (\<^verbatim>\<open>cli-agent-mail\<close>) are not among the
  sources. An outbound message has a kind, five optional texts and a timestamp; the kind is
  a string at run time, so that "any other kind" is any other string. The adapter only
  copies the timestamp and interpolates it into the message identifier, so its type is the
  parameter \<open>'ts\<close> and the conversion done by the template literal is the parameter
  \<open>show_ts\<close> of \<open>toProtocolMessage\<close>.
\<close>

record 'ts OutboxMessage =
  om_type :: string
  om_taskId :: "string option"
  om_summary :: "string option"
  om_message :: "string option"
  om_error :: "string option"
  om_requestId :: "string option"
  om_timestamp :: 'ts

record 'ts ProtocolMessage =
  pm_message_id :: string
  pm_from :: string
  pm_to :: string
  pm_type :: string
  pm_body :: string
  pm_created_at :: 'ts

record 'ts InboxMessage =
  im_type :: string
  im_content :: string
  im_timestamp :: 'ts

text \<open>
  \<^verbatim>\<open>JSON.stringify\<close> on an object whose properties are strings or \<^verbatim>\<open>undefined\<close>: a property
  that is \<^verbatim>\<open>undefined\<close> is left out, a string is quoted with the escapes of JSON.
\<close>

definition hex_digit :: "nat \<Rightarrow> char" where
  "hex_digit n = ''0123456789abcdef'' ! (n mod 16)"

definition json_quote_char :: "char \<Rightarrow> string" where
  "json_quote_char c =
     (if c = CHR 0x22 then [CHR 0x5C, CHR 0x22]
      else if c = CHR 0x5C then [CHR 0x5C, CHR 0x5C]
      else if c = CHR 0x08 then [CHR 0x5C, CHR ''b'']
      else if c = CHR 0x0C then [CHR 0x5C, CHR ''f'']
      else if c = CHR 0x0A then [CHR 0x5C, CHR ''n'']
      else if c = CHR 0x0D then [CHR 0x5C, CHR ''r'']
      else if c = CHR 0x09 then [CHR 0x5C, CHR ''t'']
      else if (of_char c :: nat) < 32 then
        [CHR 0x5C, CHR ''u'', CHR ''0'', CHR ''0'',
         hex_digit (of_char c div 16), hex_digit (of_char c mod 16)]
      else [c])"

definition JSON_quote :: "string \<Rightarrow> string" where
  "JSON_quote s = [CHR 0x22] @ concat (map json_quote_char s) @ [CHR 0x22]"

fun join_with :: "string \<Rightarrow> string list \<Rightarrow> string" where
  "join_with sep [] = []"
| "join_with sep [x] = x"
| "join_with sep (x # y # ys) = x @ sep @ join_with sep (y # ys)"

definition JSON_stringify_texts :: "(string \<times> string option) list \<Rightarrow> string" where
  "JSON_stringify_texts props =
     ''{'' @
     join_with '',''
       (List.map_filter
          (\<lambda>(k, v). map_option (\<lambda>s. JSON_quote k @ '':'' @ JSON_quote s) v) props) @
     ''}''"

text \<open>The \<^verbatim>\<open>switch\<close> of \<open>toProtocolMessage\<close>, case by case in the order of the source.\<close>

definition protocolType :: "string \<Rightarrow> string" where
  "protocolType ty =
     (if ty = ''ready'' \<or> ty = ''idle'' \<or> ty = ''heartbeat'' \<or> ty = ''shutdown_ack''
         \<or> ty = ''drain_ack'' then ''status''
      else if ty = ''task_complete'' \<or> ty = ''task_failed'' then ''result''
      else if ty = ''error'' then ''status''
      else ''chat'')"

text \<open>
  \<open>toProtocolMessage\<close> draws a random number; \<open>rand36\<close> is the string
  \<^verbatim>\<open>Math.random().toString(36)\<close>, of which the identifier takes \<^verbatim>\<open>slice(2, 8)\<close>.
\<close>

definition toProtocolMessage ::
  "('ts \<Rightarrow> string) \<Rightarrow> string \<Rightarrow> 'ts OutboxMessage \<Rightarrow> string \<Rightarrow> 'ts ProtocolMessage" where
  "toProtocolMessage show_ts rand36 msg workerName =
     (let body = JSON_stringify_texts
            [(''type'', Some (om_type msg)),
             (''taskId'', om_taskId msg),
             (''summary'', om_summary msg),
             (''message'', om_message msg),
             (''error'', om_error msg),
             (''requestId'', om_requestId msg)] in
      \<lparr> pm_message_id =
          workerName @ ''-'' @ show_ts (om_timestamp msg) @ ''-'' @ take 6 (drop 2 rand36),
        pm_from = workerName,
        pm_to = ''lead'',
        pm_type = protocolType (om_type msg),
        pm_body = body,
        pm_created_at = om_timestamp msg \<rparr>)"

definition fromProtocolMessage :: "'ts ProtocolMessage \<Rightarrow> 'ts InboxMessage" where
  "fromProtocolMessage msg =
     \<lparr> im_type = (if pm_type msg = ''instruction'' then ''message'' else ''context''),
       im_content = pm_body msg,
       im_timestamp = pm_created_at msg \<rparr>"

section \<open>Heartbeats\<close>

text \<open>
  Modelled from the spec: the declarations of \<^verbatim>\<open>HeartbeatData\<close> (\<^verbatim>\<open>./types.js\<close>) and of
  \<^verbatim>\<open>ProtocolHeartbeat\<close> (\<^verbatim>\<open>cli-agent-mail\<close>) are not among the sources. The fields that
  \<open>fromProtocolHeartbeat\<close> fills from the metadata object by an unchecked cast (worker
  name, team name, provider, error count, status) hold a \<open>jsval\<close>; the external status
  is copied from the internal one and holds a \<open>jsval\<close> too. The timestamp is only copied
  and has the type parameter \<open>'ts\<close>.
\<close>

record 'ts HeartbeatData =
  hb_workerName :: jsval
  hb_teamName :: jsval
  hb_provider :: jsval
  hb_pid :: int
  hb_lastPollAt :: 'ts
  hb_currentTaskId :: "string option"
  hb_consecutiveErrors :: jsval
  hb_status :: jsval

record 'ts ProtocolHeartbeat =
  ph_pid :: int
  ph_last_active_at :: 'ts
  ph_status :: jsval
  ph_current_task_id :: "string option"
  ph_metadata :: "obj option"

definition heartbeat_reserved_keys :: "string list" where
  "heartbeat_reserved_keys =
     [''workerName'', ''teamName'', ''provider'', ''consecutiveErrors'', ''omcStatus'']"

definition toProtocolHeartbeat :: "'ts HeartbeatData \<Rightarrow> 'ts ProtocolHeartbeat" where
  "toProtocolHeartbeat hb =
     (let protocolStatus =
            (if hb_status hb = JStr ''quarantined'' then JStr ''shutdown'' else hb_status hb) in
      \<lparr> ph_pid = hb_pid hb,
        ph_last_active_at = hb_lastPollAt hb,
        ph_status = protocolStatus,
        ph_current_task_id = hb_currentTaskId hb,
        ph_metadata = Some
          (obj_set ''omcStatus'' (hb_status hb)
          (obj_set ''consecutiveErrors'' (hb_consecutiveErrors hb)
          (obj_set ''provider'' (hb_provider hb)
          (obj_set ''teamName'' (hb_teamName hb)
          (obj_set ''workerName'' (hb_workerName hb) []))))) \<rparr>)"

definition fromProtocolHeartbeat ::
  "'ts ProtocolHeartbeat \<Rightarrow> string \<Rightarrow> string \<Rightarrow> 'ts HeartbeatData" where
  "fromProtocolHeartbeat hb workerName teamName =
     (let meta = obj_or_empty (ph_metadata hb);
          omcStatus = coalesce (obj_get meta ''omcStatus'') (ph_status hb) in
      \<lparr> hb_workerName = coalesce (obj_get meta ''workerName'') (JStr workerName),
        hb_teamName = coalesce (obj_get meta ''teamName'') (JStr teamName),
        hb_provider = coalesce (obj_get meta ''provider'') (JStr ''codex''),
        hb_pid = ph_pid hb,
        hb_lastPollAt = ph_last_active_at hb,
        hb_currentTaskId = ph_current_task_id hb,
        hb_consecutiveErrors = coalesce (obj_get meta ''consecutiveErrors'') (JNum 0),
        hb_status = omcStatus \<rparr>)"

section \<open>Worker information\<close>

text \<open>
  Modelled from the spec: the declarations of \<^verbatim>\<open>McpWorkerMember\<close> (\<^verbatim>\<open>./types.js\<close>) and of
  \<^verbatim>\<open>ProtocolWorkerInfo\<close> (\<^verbatim>\<open>cli-agent-mail\<close>) are not among the sources. A worker member
  has a name, an agent type, a working directory and a pane identifier; its further
  bookkeeping fields, which the adapter never reads, are the extension of the record.
\<close>

record McpWorkerMember =
  wm_name :: string
  wm_agentType :: string
  wm_cwd :: string
  wm_tmuxPaneId :: "string option"

record ProtocolWorkerInfo =
  wi_name :: string
  wi_index :: int
  wi_role :: string
  wi_assigned_tasks :: "string list"
  wi_pane_id :: "string option"

definition toProtocolWorkerInfo :: "'a McpWorkerMember_scheme \<Rightarrow> ProtocolWorkerInfo" where
  "toProtocolWorkerInfo member =
     \<lparr> wi_name = wm_name member,
       wi_index = 0,
       wi_role = wm_agentType member,
       wi_assigned_tasks = [],
       wi_pane_id = wm_tmuxPaneId member \<rparr>"

section \<open>Path helper\<close>

text \<open>
  \<open>resolveStateRoot\<close> calls \<^verbatim>\<open>join\<close> of Node's \<^verbatim>\<open>path\<close> module. \<open>posix_join\<close> is the
  POSIX variant of it: the non-empty arguments are joined with a slash and the result is
  normalised, that is, empty and \<^verbatim>\<open>.\<close> segments are dropped and a \<^verbatim>\<open>..\<close> segment removes
  the segment before it (at the start of a relative path it stays).
\<close>

fun split_slash :: "string \<Rightarrow> string list" where
  "split_slash [] = [[]]"
| "split_slash (c # cs) =
     (if c = CHR ''/'' then [] # split_slash cs
      else (case split_slash cs of [] \<Rightarrow> [[c]] | s # ss \<Rightarrow> (c # s) # ss))"

text \<open>One segment of the normalisation; the segments kept so far are a stack, last first.\<close>

definition normalize_step :: "bool \<Rightarrow> string list \<Rightarrow> string \<Rightarrow> string list" where
  "normalize_step allowAboveRoot st seg =
     (if seg = [] \<or> seg = ''.'' then st
      else if seg = ''..'' then
        (case st of
           [] \<Rightarrow> if allowAboveRoot then [''..''] else []
         | s # rest \<Rightarrow>
             if s = ''..'' then (if allowAboveRoot then ''..'' # st else st) else rest)
      else seg # st)"

definition normalizeString :: "string \<Rightarrow> bool \<Rightarrow> string" where
  "normalizeString path allowAboveRoot =
     join_with ''/'' (rev (foldl (normalize_step allowAboveRoot) [] (split_slash path)))"

definition posix_normalize :: "string \<Rightarrow> string" where
  "posix_normalize path =
     (if path = [] then ''.''
      else
        (let isAbsolute = (hd path = CHR ''/'');
             trailingSeparator = (last path = CHR ''/'');
             p = normalizeString path (\<not> isAbsolute) in
         if p = [] then (if isAbsolute then ''/'' else if trailingSeparator then ''./'' else ''.'')
         else
           (let p' = (if trailingSeparator then p @ ''/'' else p) in
            if isAbsolute then ''/'' @ p' else p')))"

definition posix_join :: "string list \<Rightarrow> string" where
  "posix_join args =
     (let parts = filter (\<lambda>a. a \<noteq> []) args in
      if parts = [] then ''.'' else posix_normalize (join_with ''/'' parts))"

definition resolveStateRoot :: "string \<Rightarrow> string" where
  "resolveStateRoot cwd = posix_join [cwd, ''.omc'', ''state'']"

section \<open>Example records\<close>

definition example_task :: TaskFile where
  "example_task =
     \<lparr> tf_id = ''7'', tf_subject = ''Build'', tf_description = ''Build the index'',
       tf_activeForm = JStr ''Building'', tf_status = ''in_progress'',
       tf_owner = Some ''worker-1'', tf_blocks = [JStr ''9''], tf_blockedBy = [],
       tf_metadata = Some [(''priority'', JNum 2)],
       tf_claimedBy = JStr ''worker-1'', tf_claimedAt = JNum 1700000000000,
       tf_claimPid = JNum 4242 \<rparr>"

definition example_unowned_task :: TaskFile where
  "example_unowned_task = example_task \<lparr> tf_owner := Some [], tf_blockedBy := [''3'', ''4''] \<rparr>"

definition example_protocol_task :: ProtocolTask where
  "example_protocol_task =
     \<lparr> pt_schema_version = 1, pt_id = ''7'', pt_subject = ''Build'',
       pt_description = ''Build the index'', pt_status = ''pending'', pt_owner = None,
       pt_depends_on = None, pt_version = 1,
       pt_metadata = Some [(''blocks'', JArr [JStr ''9'']), (''priority'', JNum 2),
                           (''claimPid'', JNum 4242), (''note'', JUndefined)],
       pt_created_at = ''2026-01-01T00:00:00.000Z'' \<rparr>"

definition example_outbox :: "string \<Rightarrow> string OutboxMessage" where
  "example_outbox ty =
     \<lparr> om_type = ty, om_taskId = Some ''7'', om_summary = None, om_message = None,
       om_error = None, om_requestId = None, om_timestamp = ''2026-01-01T00:00:00.000Z'' \<rparr>"

definition example_protocol_message :: "string \<Rightarrow> string ProtocolMessage" where
  "example_protocol_message ty =
     \<lparr> pm_message_id = ''lead-1'', pm_from = ''lead'', pm_to = ''worker-1'', pm_type = ty,
       pm_body = ''run the tests'', pm_created_at = ''2026-01-01T00:00:00.000Z'' \<rparr>"

definition example_heartbeat :: "string HeartbeatData" where
  "example_heartbeat =
     \<lparr> hb_workerName = JStr ''worker-1'', hb_teamName = JStr ''alpha'',
       hb_provider = JStr ''gemini'', hb_pid = 4242,
       hb_lastPollAt = ''2026-01-01T00:00:00.000Z'', hb_currentTaskId = Some ''7'',
       hb_consecutiveErrors = JNum 3, hb_status = JStr ''quarantined'' \<rparr>"

definition example_protocol_heartbeat :: "string ProtocolHeartbeat" where
  "example_protocol_heartbeat =
     \<lparr> ph_pid = 4242, ph_last_active_at = ''2026-01-01T00:00:00.000Z'',
       ph_status = JStr ''polling'', ph_current_task_id = None, ph_metadata = None \<rparr>"

definition example_tagged_heartbeat :: "string ProtocolHeartbeat" where
  "example_tagged_heartbeat =
     example_protocol_heartbeat \<lparr> ph_metadata := Some [(''host'', JStr ''build-3'')] \<rparr>"

section \<open>Properties of objects\<close>

lemma map_of_obj_set: "map_of (obj_set k v m) = (map_of m)(k \<mapsto> v)"
  by (induction m) (auto simp: fun_eq_iff)

lemma obj_get_obj_set: "obj_get (obj_set k v m) k' = (if k' = k then v else obj_get m k')"
  by (simp add: obj_get_def map_of_obj_set)






lemma obj_get_absent: "k \<notin> fst ` set m \<Longrightarrow> obj_get m k = JUndefined"
proof -
  assume "k \<notin> fst ` set m"
  then have "map_of m k = None" by (simp add: map_of_eq_None_iff)
  then show ?thesis by (simp add: obj_get_def)
qed

lemma coalesce_opt_string: "is_opt_string v \<Longrightarrow> coalesce v JUndefined = v"
  by (cases v) (simp_all add: coalesce_def)


section \<open>Properties of the converters\<close>

text \<open>
  Claim C1. Let \<open>t\<close> be a task record of the declared type whose owner is a non-empty
  string and whose metadata has none of the five reserved keys. Converting \<open>t\<close> to a
  protocol task and back gives a record with the same \<open>blocks\<close>, \<open>blockedBy\<close>,
  \<open>activeForm\<close>, \<open>claimedBy\<close>, \<open>claimedAt\<close> and \<open>claimPid\<close>. An empty \<open>blockedBy\<close> is
  sent as an absent \<open>depends_on\<close> and comes back as the empty list. The clock value \<open>now\<close>
  read by the forward conversion is arbitrary.
\<close>

theorem task_roundtrip:
  assumes typed: "TaskFile_typed t"
    and owner: "\<exists>s. tf_owner t = Some s \<and> s \<noteq> []"
    and fresh: "set task_reserved_keys \<inter> fst ` set (obj_or_empty (tf_metadata t)) = {}"
  shows "tf_blocks (fromProtocolTask (toProtocolTask now t)) = tf_blocks t
       \<and> tf_blockedBy (fromProtocolTask (toProtocolTask now t)) = tf_blockedBy t
       \<and> tf_activeForm (fromProtocolTask (toProtocolTask now t)) = tf_activeForm t
       \<and> tf_claimedBy (fromProtocolTask (toProtocolTask now t)) = tf_claimedBy t
       \<and> tf_claimedAt (fromProtocolTask (toProtocolTask now t)) = tf_claimedAt t
       \<and> tf_claimPid (fromProtocolTask (toProtocolTask now t)) = tf_claimPid t"
proof -
  from typed have "is_opt_string (tf_activeForm t)" by (simp add: TaskFile_typed_def)
  then have "coalesce (tf_activeForm t) JUndefined = tf_activeForm t"
    by (rule coalesce_opt_string)
  then show ?thesis
    by (simp add: fromProtocolTask_def toProtocolTask_def Let_def obj_get_obj_set)
qed

theorem task_roundtrip_witness:
  "TaskFile_typed example_task
   \<and> (\<exists>s. tf_owner example_task = Some s \<and> s \<noteq> [])
   \<and> set task_reserved_keys \<inter> fst ` set (obj_or_empty (tf_metadata example_task)) = {}
   \<and> tf_blocks (fromProtocolTask (toProtocolTask ''2026-01-01T00:00:00.000Z'' example_task))
       = [JStr ''9'']
   \<and> tf_blockedBy (fromProtocolTask (toProtocolTask ''2026-01-01T00:00:00.000Z'' example_task))
       = []
   \<and> tf_activeForm (fromProtocolTask (toProtocolTask ''2026-01-01T00:00:00.000Z'' example_task))
       = JStr ''Building''
   \<and> tf_claimedBy (fromProtocolTask (toProtocolTask ''2026-01-01T00:00:00.000Z'' example_task))
       = JStr ''worker-1''
   \<and> tf_claimedAt (fromProtocolTask (toProtocolTask ''2026-01-01T00:00:00.000Z'' example_task))
       = JNum 1700000000000
   \<and> tf_claimPid (fromProtocolTask (toProtocolTask ''2026-01-01T00:00:00.000Z'' example_task))
       = JNum 4242"
proof -
  have typed: "TaskFile_typed example_task"
    by (simp add: TaskFile_typed_def example_task_def wf_obj_def)
  have owner: "\<exists>s. tf_owner example_task = Some s \<and> s \<noteq> []"
    by (simp add: example_task_def)
  have fresh: "set task_reserved_keys \<inter> fst ` set (obj_or_empty (tf_metadata example_task)) = {}"
    by (simp add: task_reserved_keys_def example_task_def)
  have fields: "tf_blocks example_task = [JStr ''9''] \<and> tf_blockedBy example_task = []
      \<and> tf_activeForm example_task = JStr ''Building''
      \<and> tf_claimedBy example_task = JStr ''worker-1''
      \<and> tf_claimedAt example_task = JNum 1700000000000
      \<and> tf_claimPid example_task = JNum 4242"
    by (simp add: example_task_def)
  from task_roundtrip [OF typed owner fresh, of "''2026-01-01T00:00:00.000Z''"] fields
  show ?thesis using typed owner fresh by simp
qed

text \<open>
  The hypothesis on the type matters for \<open>activeForm\<close> only: the reverse conversion reads
  it with \<^verbatim>\<open>?? undefined\<close>, so a \<^verbatim>\<open>null\<close>, which the declared type excludes, would come back
  as \<^verbatim>\<open>undefined\<close>.
\<close>

lemma activeForm_null_read_as_undefined:
  "tf_activeForm t = JNull \<Longrightarrow>
   tf_activeForm (fromProtocolTask (toProtocolTask now t)) = JUndefined"
  by (simp add: fromProtocolTask_def toProtocolTask_def Let_def obj_get_obj_set coalesce_def)

text \<open>
  Claim C2. For every heartbeat record \<open>h\<close> and all fallback names \<open>w\<close> and \<open>t\<close>,
  converting \<open>h\<close> to a protocol heartbeat and back gives the status of \<open>h\<close>, also when
  that status is \<^verbatim>\<open>quarantined\<close>, which the forward conversion replaces in the external
  status field.
\<close>

theorem heartbeat_status_roundtrip:
  "hb_status (fromProtocolHeartbeat (toProtocolHeartbeat h) w t) = hb_status h"
  by (cases "hb_status h")
    (simp_all add: fromProtocolHeartbeat_def toProtocolHeartbeat_def Let_def obj_get_obj_set
      coalesce_def del: obj_set.simps)

theorem heartbeat_status_roundtrip_witness:
  "ph_status (toProtocolHeartbeat example_heartbeat) = JStr ''shutdown''
   \<and> hb_status (fromProtocolHeartbeat (toProtocolHeartbeat example_heartbeat) ''w1'' ''t1'')
       = JStr ''quarantined''"
  using heartbeat_status_roundtrip [of example_heartbeat "''w1''" "''t1''"]
  by (simp add: example_heartbeat_def toProtocolHeartbeat_def)

text \<open>
  Claim C3. For every outbound message, sender name, random draw and timestamp
  rendering, the external type is \<^verbatim>\<open>status\<close> when the kind is one of \<^verbatim>\<open>ready\<close>, \<^verbatim>\<open>idle\<close>,
  \<^verbatim>\<open>heartbeat\<close>, \<^verbatim>\<open>shutdown_ack\<close>, \<^verbatim>\<open>drain_ack\<close>, \<^verbatim>\<open>error\<close>; it is \<^verbatim>\<open>result\<close> when the
  kind is \<^verbatim>\<open>task_complete\<close> or \<^verbatim>\<open>task_failed\<close>; it is \<^verbatim>\<open>chat\<close> for every other kind.
\<close>

theorem toProtocolMessage_type:
  "(om_type msg \<in> {''ready'', ''idle'', ''heartbeat'', ''shutdown_ack'', ''drain_ack'', ''error''}
      \<longrightarrow> pm_type (toProtocolMessage show_ts rand36 msg sender) = ''status'')
   \<and> (om_type msg \<in> {''task_complete'', ''task_failed''}
      \<longrightarrow> pm_type (toProtocolMessage show_ts rand36 msg sender) = ''result'')
   \<and> (om_type msg \<notin> {''ready'', ''idle'', ''heartbeat'', ''shutdown_ack'', ''drain_ack'', ''error'',
                      ''task_complete'', ''task_failed''}
      \<longrightarrow> pm_type (toProtocolMessage show_ts rand36 msg sender) = ''chat'')"
  by (auto simp: toProtocolMessage_def Let_def protocolType_def)

theorem toProtocolMessage_type_witness:
  "pm_type (toProtocolMessage (\<lambda>s. s) ''0.4fzyo82mvyr'' (example_outbox ''error'') ''worker-1'')
     = ''status''
   \<and> pm_type (toProtocolMessage (\<lambda>s. s) ''0.4fzyo82mvyr'' (example_outbox ''task_failed'') ''worker-1'')
     = ''result''
   \<and> pm_type (toProtocolMessage (\<lambda>s. s) ''0.4fzyo82mvyr'' (example_outbox ''all_tasks_complete'') ''worker-1'')
     = ''chat''"
  using
    toProtocolMessage_type [of "example_outbox ''error''" "\<lambda>s. s" "''0.4fzyo82mvyr''" "''worker-1''"]
    toProtocolMessage_type [of "example_outbox ''task_failed''" "\<lambda>s. s" "''0.4fzyo82mvyr''" "''worker-1''"]
    toProtocolMessage_type [of "example_outbox ''all_tasks_complete''" "\<lambda>s. s" "''0.4fzyo82mvyr''" "''worker-1''"]
  by (simp add: example_outbox_def)



text \<open>
  Claim C5. For every heartbeat record whose status is \<^verbatim>\<open>quarantined\<close>, the protocol
  heartbeat has status \<^verbatim>\<open>shutdown\<close> and its metadata has \<^verbatim>\<open>quarantined\<close> under the key
  \<^verbatim>\<open>omcStatus\<close>.
\<close>

theorem toProtocolHeartbeat_quarantined:
  assumes "hb_status h = JStr ''quarantined''"
  shows "ph_status (toProtocolHeartbeat h) = JStr ''shutdown''
       \<and> (\<exists>m. ph_metadata (toProtocolHeartbeat h) = Some m
              \<and> map_of m ''omcStatus'' = Some (JStr ''quarantined''))"
  using assms by (simp add: toProtocolHeartbeat_def Let_def map_of_obj_set)

theorem toProtocolHeartbeat_quarantined_witness:
  "hb_status example_heartbeat = JStr ''quarantined''
   \<and> ph_status (toProtocolHeartbeat example_heartbeat) = JStr ''shutdown''
   \<and> (\<exists>m. ph_metadata (toProtocolHeartbeat example_heartbeat) = Some m
          \<and> map_of m ''omcStatus'' = Some (JStr ''quarantined''))"
proof -
  have q: "hb_status example_heartbeat = JStr ''quarantined''"
    by (simp add: example_heartbeat_def)
  from toProtocolHeartbeat_quarantined [OF q] q show ?thesis by simp
qed

text \<open>
  Claim C6. For every protocol heartbeat whose metadata is absent, or has none of the
  reserved keys, \<open>fromProtocolHeartbeat\<close> with the fallback names \<open>w\<close> and \<open>t\<close> gives worker
  name \<open>w\<close>, team name \<open>t\<close>, provider \<^verbatim>\<open>codex\<close>, error count 0 and the external status
  unchanged.
\<close>

theorem fromProtocolHeartbeat_defaults:
  assumes "ph_metadata e = None \<or>
           set heartbeat_reserved_keys \<inter> fst ` set (obj_or_empty (ph_metadata e)) = {}"
  shows "hb_workerName (fromProtocolHeartbeat e w t) = JStr w
       \<and> hb_teamName (fromProtocolHeartbeat e w t) = JStr t
       \<and> hb_provider (fromProtocolHeartbeat e w t) = JStr ''codex''
       \<and> hb_consecutiveErrors (fromProtocolHeartbeat e w t) = JNum 0
       \<and> hb_status (fromProtocolHeartbeat e w t) = ph_status e"
proof -
  have "obj_get (obj_or_empty (ph_metadata e)) k = JUndefined"
    if "k \<in> set heartbeat_reserved_keys" for k
  proof (cases "ph_metadata e")
    case None
    then show ?thesis by (simp add: obj_get_def)
  next
    case (Some m)
    with assms that have "k \<notin> fst ` set (obj_or_empty (ph_metadata e))" by auto
    then show ?thesis by (rule obj_get_absent)
  qed
  then show ?thesis
    by (simp add: fromProtocolHeartbeat_def Let_def heartbeat_reserved_keys_def coalesce_def)
qed

theorem fromProtocolHeartbeat_defaults_witness:
  "ph_metadata example_protocol_heartbeat = None
   \<and> hb_workerName (fromProtocolHeartbeat example_protocol_heartbeat ''w1'' ''t1'') = JStr ''w1''
   \<and> hb_teamName (fromProtocolHeartbeat example_protocol_heartbeat ''w1'' ''t1'') = JStr ''t1''
   \<and> hb_provider (fromProtocolHeartbeat example_protocol_heartbeat ''w1'' ''t1'') = JStr ''codex''
   \<and> hb_consecutiveErrors (fromProtocolHeartbeat example_protocol_heartbeat ''w1'' ''t1'') = JNum 0
   \<and> hb_status (fromProtocolHeartbeat example_protocol_heartbeat ''w1'' ''t1'') = JStr ''polling''
   \<and> ph_metadata example_tagged_heartbeat = Some [(''host'', JStr ''build-3'')]
   \<and> hb_workerName (fromProtocolHeartbeat example_tagged_heartbeat ''w1'' ''t1'') = JStr ''w1''
   \<and> hb_teamName (fromProtocolHeartbeat example_tagged_heartbeat ''w1'' ''t1'') = JStr ''t1''
   \<and> hb_provider (fromProtocolHeartbeat example_tagged_heartbeat ''w1'' ''t1'') = JStr ''codex''
   \<and> hb_consecutiveErrors (fromProtocolHeartbeat example_tagged_heartbeat ''w1'' ''t1'') = JNum 0
   \<and> hb_status (fromProtocolHeartbeat example_tagged_heartbeat ''w1'' ''t1'') = JStr ''polling''"
proof -
  have absent: "ph_metadata example_protocol_heartbeat = None"
    by (simp add: example_protocol_heartbeat_def)
  then have hyp: "ph_metadata example_protocol_heartbeat = None \<or>
      set heartbeat_reserved_keys
        \<inter> fst ` set (obj_or_empty (ph_metadata example_protocol_heartbeat)) = {}"
    by simp
  have tagged: "ph_metadata example_tagged_heartbeat = Some [(''host'', JStr ''build-3'')]"
    by (simp add: example_tagged_heartbeat_def example_protocol_heartbeat_def)
  then have hyp': "ph_metadata example_tagged_heartbeat = None \<or>
      set heartbeat_reserved_keys
        \<inter> fst ` set (obj_or_empty (ph_metadata example_tagged_heartbeat)) = {}"
    by (simp add: heartbeat_reserved_keys_def)
  have status: "ph_status example_protocol_heartbeat = JStr ''polling''"
    "ph_status example_tagged_heartbeat = JStr ''polling''"
    by (simp_all add: example_tagged_heartbeat_def example_protocol_heartbeat_def)
  from fromProtocolHeartbeat_defaults [OF hyp, of "''w1''" "''t1''"]
    fromProtocolHeartbeat_defaults [OF hyp', of "''w1''" "''t1''"]
    absent tagged status
  show ?thesis by simp
qed

text \<open>
  Claim C7. The two task converters treat the owner differently: a task record whose
  owner is unset or the empty string becomes a protocol task without owner, and a protocol
  task without owner becomes a task record whose owner is the empty string.
\<close>

theorem owner_asymmetry:
  "((tf_owner t = None \<or> tf_owner t = Some []) \<longrightarrow> pt_owner (toProtocolTask now t) = None)
   \<and> (pt_owner e = None \<longrightarrow> tf_owner (fromProtocolTask e) = Some [])"
  by (auto simp: toProtocolTask_def fromProtocolTask_def Let_def)

theorem owner_asymmetry_witness:
  "tf_owner example_unowned_task = Some []
   \<and> pt_owner (toProtocolTask ''2026-01-01T00:00:00.000Z'' example_unowned_task) = None
   \<and> pt_owner example_protocol_task = None
   \<and> tf_owner (fromProtocolTask example_protocol_task) = Some []"
proof -
  have a: "tf_owner example_unowned_task = Some []"
    by (simp add: example_unowned_task_def)
  have b: "pt_owner example_protocol_task = None"
    by (simp add: example_protocol_task_def)
  from owner_asymmetry [of example_unowned_task "''2026-01-01T00:00:00.000Z''" example_protocol_task]
    a b show ?thesis by simp
qed

text \<open>
  Claim C8. A task record with an empty \<open>blockedBy\<close> becomes a protocol task whose
  \<open>depends_on\<close> is absent (not the empty list); with a non-empty \<open>blockedBy\<close>,
  \<open>depends_on\<close> is that list.
\<close>

theorem toProtocolTask_depends_on:
  "(tf_blockedBy t = [] \<longrightarrow> pt_depends_on (toProtocolTask now t) = None)
   \<and> (tf_blockedBy t \<noteq> [] \<longrightarrow> pt_depends_on (toProtocolTask now t) = Some (tf_blockedBy t))"
  by (simp add: toProtocolTask_def)

theorem toProtocolTask_depends_on_witness:
  "tf_blockedBy example_task = []
   \<and> pt_depends_on (toProtocolTask ''2026-01-01T00:00:00.000Z'' example_task) = None
   \<and> tf_blockedBy example_unowned_task = [''3'', ''4'']
   \<and> pt_depends_on (toProtocolTask ''2026-01-01T00:00:00.000Z'' example_unowned_task)
       = Some [''3'', ''4'']"
proof -
  have a: "tf_blockedBy example_task = []"
    by (simp add: example_task_def)
  have b: "tf_blockedBy example_unowned_task = [''3'', ''4'']"
    by (simp add: example_unowned_task_def)
  from toProtocolTask_depends_on [of example_task "''2026-01-01T00:00:00.000Z''"]
    toProtocolTask_depends_on [of example_unowned_task "''2026-01-01T00:00:00.000Z''"]
    a b show ?thesis by simp
qed

text \<open>
  Claim C9. \<open>fromProtocolMessage\<close> gives type \<^verbatim>\<open>message\<close> exactly when the external type
  is \<^verbatim>\<open>instruction\<close> and type \<^verbatim>\<open>context\<close> for every other external type; the content is
  the body and the timestamp is the creation time, both unchanged.
\<close>

theorem fromProtocolMessage_fields:
  "(im_type (fromProtocolMessage m) = ''message'' \<longleftrightarrow> pm_type m = ''instruction'')
   \<and> (pm_type m \<noteq> ''instruction'' \<longrightarrow> im_type (fromProtocolMessage m) = ''context'')
   \<and> im_content (fromProtocolMessage m) = pm_body m
   \<and> im_timestamp (fromProtocolMessage m) = pm_created_at m"
  by (simp add: fromProtocolMessage_def)

theorem fromProtocolMessage_fields_witness:
  "im_type (fromProtocolMessage (example_protocol_message ''instruction'')) = ''message''
   \<and> im_type (fromProtocolMessage (example_protocol_message ''status'')) = ''context''
   \<and> im_content (fromProtocolMessage (example_protocol_message ''status'')) = ''run the tests''
   \<and> im_timestamp (fromProtocolMessage (example_protocol_message ''status''))
       = ''2026-01-01T00:00:00.000Z''"
  using fromProtocolMessage_fields [of "example_protocol_message ''instruction''"]
    fromProtocolMessage_fields [of "example_protocol_message ''status''"]
  by (simp add: example_protocol_message_def)

end
